theory Spec2Isabelle
  imports Main "HOL-Library.Word" "HOL-Library.Finite_Map"
begin

section \<open>Data model\<close>

text \<open>
  A tag is the pair (group, element) of 16-bit unsigned integers, as in the tuples of
  \<^verbatim>\<open>TAGS_TO_ANONYMIZE_BY_GROUP\<close>.  A data element carries its value representation
  (the two-letter string that the source compares, \<^verbatim>\<open>vr == "UI"\<close>) and its value.
  A value is a string (text, numbers and opaque bytes alike) or, for a sequence element,
  the list of its items, each item a dataset again.  A dataset is the dictionary from
  tags to elements that pydicom's \<^verbatim>\<open>Dataset\<close> is: a finite map, at most one element
  per tag.
\<close>

type_synonym tag = "16 word \<times> 16 word"

datatype data_element = DataElement (VR: string) (val: data_value)
  and data_value = Str string | Seq "(tag, data_element) fmap list"

type_synonym dataset = "(tag, data_element) fmap"

text \<open>
  What \<^verbatim>\<open>pydicom.dcmread\<close> returns: the main dataset and its \<^verbatim>\<open>file_meta\<close>
  sub-mapping.
\<close>

record file_dataset =
  body :: dataset
  file_meta :: dataset

text \<open>
  The files the function reads and writes.  A file either decodes as DICOM or it does
  not (\<^verbatim>\<open>InvalidDicomError\<close>); a path with no file makes \<^verbatim>\<open>dcmread\<close> raise
  \<^verbatim>\<open>FileNotFoundError\<close>.
\<close>

datatype file_content = Dicom file_dataset | NotDicom

datatype exn = FileNotFoundError | AttributeError

datatype log_record =
    Warning_skipping_non_dicom string
  | Warning_could_not_blank tag
  | Info_anonymized string string

text \<open>
  The state of the process around one call: the file system, the number of identifiers
  that \<^verbatim>\<open>generate_uid\<close> has handed out so far, and the log.
\<close>

record process_state =
  files :: "string \<rightharpoonup> file_content"
  uid_count :: nat
  log :: "log_record list"

text \<open>
  The two behaviours of pydicom that the function depends on and that the repository
  does not define are parameters:
  \<^item> \<open>generate_uid lib n\<close> is the identifier returned by the \<open>n\<close>-th call of
    \<^verbatim>\<open>generate_uid()\<close> in this process (the generator draws on randomness, so two
    runs differ in this function);
  \<^item> \<open>rejects_empty lib vr\<close> holds when the assignment
    \<^verbatim>\<open>ds[tag].value = ""\<close> raises \<^verbatim>\<open>TypeError\<close> for an element of that VR
    (the setter converts the new value by the element's VR).
\<close>

record library =
  generate_uid :: "nat \<Rightarrow> string"
  rejects_empty :: "string \<Rightarrow> bool"

section \<open>The tag catalogue\<close>

definition TAGS_TO_ANONYMIZE_BY_GROUP :: "(string \<times> tag list) list" where
  "TAGS_TO_ANONYMIZE_BY_GROUP =
    [(''Patient Information'',
        [(0x0010, 0x0010), (0x0010, 0x0020), (0x0010, 0x0021), (0x0010, 0x0030),
         (0x0010, 0x0032), (0x0010, 0x0040), (0x0010, 0x1000), (0x0010, 0x1001),
         (0x0010, 0x1002), (0x0010, 0x1010), (0x0010, 0x1020), (0x0010, 0x1030),
         (0x0010, 0x1040), (0x0010, 0x2160), (0x0010, 0x2180), (0x0010, 0x21B0),
         (0x0010, 0x4000)]),
     (''Physician Information'',
        [(0x0008, 0x0080), (0x0008, 0x0081), (0x0008, 0x0090), (0x0008, 0x0092),
         (0x0008, 0x0094), (0x0008, 0x1050), (0x0008, 0x1070)]),
     (''Study Information'',
        [(0x0008, 0x1030), (0x0008, 0x0050), (0x0032, 0x1032)]),
     (''Equipment Information'', [(0x0008, 0x1010)]),
     (''UIDs'',
        [(0x0020, 0x000D), (0x0020, 0x000E), (0x0008, 0x0018), (0x0020, 0x0052)])]"

definition ALL_TAGS_TO_ANONYMIZE :: "tag list" where
  "ALL_TAGS_TO_ANONYMIZE = concat (map snd TAGS_TO_ANONYMIZE_BY_GROUP)"

section \<open>The anonymization of one file\<close>

text \<open>The two tags that the function names itself.\<close>

definition MediaStorageSOPInstanceUID :: tag where
  "MediaStorageSOPInstanceUID = (0x0002, 0x0003)"

definition SOPInstanceUID :: tag where
  "SOPInstanceUID = (0x0008, 0x0018)"

text \<open>
  \<^verbatim>\<open>ds[tag].value = v\<close>: the element keeps its VR and takes the new value.  The
  values that the function assigns are strings; the empty value is the empty string for
  every VR (for a sequence element pydicom stores the sequence without items, which the
  model does not tell apart from it).
\<close>

definition set_value :: "tag \<Rightarrow> data_element \<Rightarrow> data_value \<Rightarrow> dataset \<Rightarrow> dataset" where
  "set_value tag elem v ds = fmupd tag (DataElement (VR elem) v) ds"

text \<open>
  The body of the loop \<^verbatim>\<open>for group, element in tags_to_anonymize\<close>: the dispatch on
  the VR, in the order of the source's \<^verbatim>\<open>if\<close>/\<^verbatim>\<open>elif\<close> chain.  A tag that is not
  in the dataset leaves everything as it is.
\<close>

definition anonymize_tag ::
    "library \<Rightarrow> tag \<Rightarrow> dataset \<times> process_state \<Rightarrow> dataset \<times> process_state" where
  "anonymize_tag lib tag = (\<lambda>(ds, st).
     case fmlookup ds tag of
       None \<Rightarrow> (ds, st)
     | Some elem \<Rightarrow>
         let vr = VR elem in
         if vr = ''UI'' then
           (set_value tag elem (Str (generate_uid lib (uid_count st))) ds,
            st\<lparr>uid_count := Suc (uid_count st)\<rparr>)
         else if vr \<in> set [''PN'', ''SH'', ''LO'', ''ST'', ''LT''] then
           (set_value tag elem (Str ''ANONYMIZED'') ds, st)
         else if vr = ''DA'' then
           (set_value tag elem (Str ''18000101'') ds, st)
         else if vr = ''TM'' then
           (set_value tag elem (Str ''000000'') ds, st)
         else if vr \<in> set [''DS'', ''IS''] then
           (set_value tag elem (Str ''0'') ds, st)
         else if rejects_empty lib vr then
           (fmdrop tag ds, st\<lparr>log := log st @ [Warning_could_not_blank tag]\<rparr>)
         else
           (set_value tag elem (Str '''') ds, st))"

primrec anonymize_tags ::
    "library \<Rightarrow> tag list \<Rightarrow> dataset \<times> process_state \<Rightarrow> dataset \<times> process_state" where
  "anonymize_tags lib [] s = s"
| "anonymize_tags lib (tag # tags) s = anonymize_tags lib tags (anonymize_tag lib tag s)"

text \<open>
  pydicom's \<^verbatim>\<open>BaseTag.is_private\<close>: the group number is odd.
\<close>

definition is_private :: "tag \<Rightarrow> bool" where
  "is_private tag = (unat (fst tag) mod 2 = 1)"

text \<open>
  pydicom's \<^verbatim>\<open>Dataset.remove_private_tags()\<close> walks the dataset with a callback that
  deletes every private element; the walk descends into the items of every sequence
  element that is still there, so private elements are removed at every depth.
\<close>

primrec remove_private_elem :: "data_element \<Rightarrow> data_element"
  and remove_private_val :: "data_value \<Rightarrow> data_value" where
  "remove_private_elem (DataElement vr v) = DataElement vr (remove_private_val v)"
| "remove_private_val (Str s) = Str s"
| "remove_private_val (Seq items) =
     Seq (map (fmfilter (\<lambda>t. \<not> is_private t)) (map (fmmap remove_private_elem) items))"

definition remove_private_tags :: "dataset \<Rightarrow> dataset" where
  "remove_private_tags ds = fmfilter (\<lambda>t. \<not> is_private t) (fmmap remove_private_elem ds)"

text \<open>
  Lines 75 to 97 of the source: the rewrite of the selected tags, then the removal of
  the private elements.
\<close>

definition rewrite_pass ::
    "library \<Rightarrow> tag list \<Rightarrow> dataset \<times> process_state \<Rightarrow> dataset \<times> process_state" where
  "rewrite_pass lib tags s =
     (let (ds, st) = anonymize_tags lib tags s in (remove_private_tags ds, st))"

text \<open>
  Lines 100 and 101: when the file meta holds (0002,0003), its value becomes
  \<^verbatim>\<open>ds.SOPInstanceUID\<close>.  Reading that attribute of a dataset without the element
  (0008,0018) raises \<^verbatim>\<open>AttributeError\<close>; the source does not test for it.  The
  assignment keeps the VR of the meta element.
\<close>

definition update_file_meta :: "file_dataset \<Rightarrow> exn + file_dataset" where
  "update_file_meta f =
     (case fmlookup (file_meta f) MediaStorageSOPInstanceUID of
        None \<Rightarrow> Inr f
      | Some m \<Rightarrow>
          (case fmlookup (body f) SOPInstanceUID of
             None \<Rightarrow> Inl AttributeError
           | Some sop \<Rightarrow>
               Inr (f\<lparr>file_meta :=
                 set_value MediaStorageSOPInstanceUID m (val sop) (file_meta f)\<rparr>)))"

text \<open>
  The whole function.  The result is the raised exception or the returned boolean,
  together with the state of the process afterwards.  Creating the output directory and
  encoding the dataset are taken to succeed: the file at \<open>output_path\<close> then holds the
  dataset.
\<close>

definition anonymize_dicom_file ::
    "library \<Rightarrow> string \<Rightarrow> string \<Rightarrow> tag list \<Rightarrow> process_state \<Rightarrow>
     (exn + bool) \<times> process_state" where
  "anonymize_dicom_file lib input_path output_path tags_to_anonymize st =
     (case files st input_path of
        None \<Rightarrow> (Inl FileNotFoundError, st)
      | Some NotDicom \<Rightarrow>
          (Inr False, st\<lparr>log := log st @ [Warning_skipping_non_dicom input_path]\<rparr>)
      | Some (Dicom f) \<Rightarrow>
          (let (ds, st1) = rewrite_pass lib tags_to_anonymize (body f, st) in
           case update_file_meta (f\<lparr>body := ds\<rparr>) of
             Inl e \<Rightarrow> (Inl e, st1)
           | Inr out \<Rightarrow>
               (Inr True,
                st1\<lparr>files := (files st1)(output_path \<mapsto> Dicom out),
                    log := log st1 @ [Info_anonymized input_path output_path]\<rparr>)))"

section \<open>Notions used to state the properties\<close>

text \<open>
  The rewrite policy in the words of the specification (section 4.1, rules 2 to 6): from
  an element, the element that replaces it, or \<open>None\<close> for the directive to delete
  it.  Rule 1 (a fresh identifier for VR UI) is not a function of the element and is
  stated with the generator where it is needed.
\<close>

definition VR_rewrite_policy :: "library \<Rightarrow> data_element \<Rightarrow> data_element option" where
  "VR_rewrite_policy lib e =
     (if VR e \<in> {''PN'', ''SH'', ''LO'', ''ST'', ''LT''}
        then Some (DataElement (VR e) (Str ''ANONYMIZED''))
      else if VR e = ''DA'' then Some (DataElement (VR e) (Str ''18000101''))
      else if VR e = ''TM'' then Some (DataElement (VR e) (Str ''000000''))
      else if VR e \<in> {''DS'', ''IS''} then Some (DataElement (VR e) (Str ''0''))
      else if rejects_empty lib (VR e) then None
      else Some (DataElement (VR e) (Str '''')))"

text \<open>
  A value, an element or a dataset holds no private element at any depth.
\<close>

primrec private_free_elem :: "data_element \<Rightarrow> bool"
  and private_free_val :: "data_value \<Rightarrow> bool" where
  "private_free_elem (DataElement vr v) = private_free_val v"
| "private_free_val (Str s) = True"
| "private_free_val (Seq items) =
     list_all (fmpred (\<lambda>t ok. \<not> is_private t \<and> ok)) (map (fmmap private_free_elem) items)"

definition private_free :: "dataset \<Rightarrow> bool" where
  "private_free ds = fmpred (\<lambda>t e. \<not> is_private t \<and> private_free_elem e) ds"

text \<open>
  After a run that started with \<open>n\<close> identifiers handed out, the element at a tag
  holds an identifier that the generator handed out during the run.
\<close>

definition holds_generated :: "library \<Rightarrow> nat \<Rightarrow> tag \<Rightarrow> dataset \<times> process_state \<Rightarrow> bool" where
  "holds_generated lib n t s \<longleftrightarrow>
     (\<exists>k. n \<le> k \<and> k < uid_count (snd s) \<and>
        fmlookup (fst s) t = Some (DataElement ''UI'' (Str (generate_uid lib k))))"

text \<open>
  Two datasets agree up to the identifiers of the tags in \<open>S\<close>: at every tag they hold
  the same element (or both none), except that at a tag of \<open>S\<close> both may hold an
  element of VR UI, with values that may differ.
\<close>

definition agree_up_to_UI :: "tag set \<Rightarrow> dataset \<Rightarrow> dataset \<Rightarrow> bool" where
  "agree_up_to_UI S d1 d2 \<longleftrightarrow>
     (\<forall>t. fmlookup d1 t = fmlookup d2 t
        \<or> (t \<in> S \<and> (\<exists>v1 v2. fmlookup d1 t = Some (DataElement ''UI'' v1)
                          \<and> fmlookup d2 t = Some (DataElement ''UI'' v2))))"

section \<open>Example inputs\<close>

text \<open>
  A library whose generator returns 2.25.7, 2.25.77, ... and whose setter rejects the
  empty value for VR US only.
\<close>

definition ex_lib :: library where
  "ex_lib = \<lparr>generate_uid = (\<lambda>n. ''2.25.'' @ replicate (Suc n) CHR ''7''),
     rejects_empty = (\<lambda>vr. vr = ''US'')\<rparr>"

text \<open>A process whose only file, \<^verbatim>\<open>data/in.dcm\<close>, decodes to the given dataset.\<close>

definition ex_state :: "file_dataset \<Rightarrow> process_state" where
  "ex_state f = \<lparr>files = [''data/in.dcm'' \<mapsto> Dicom f], uid_count = 0, log = []\<rparr>"

text \<open>A file with the meta identifier and no SOP Instance UID in its body.\<close>

definition ex_no_sop :: file_dataset where
  "ex_no_sop =
     \<lparr>body = fmupd (0x0010, 0x0010) (DataElement ''PN'' (Str ''Jane Doe'')) fmempty,
      file_meta = fmupd (0x0002, 0x0003) (DataElement ''UI'' (Str ''1.2.3'')) fmempty\<rparr>"

text \<open>A file with a private element and a meta identifier that differs from the body's.\<close>

definition ex_file :: file_dataset where
  "ex_file =
     \<lparr>body = fmupd (0x0008, 0x0018) (DataElement ''UI'' (Str ''1.2.3''))
              (fmupd (0x0010, 0x0010) (DataElement ''PN'' (Str ''Jane Doe''))
              (fmupd (0x0010, 0x0030) (DataElement ''DA'' (Str ''19850604''))
              (fmupd (0x0009, 0x0010) (DataElement ''LO'' (Str ''vendor'')) fmempty))),
      file_meta = fmupd (0x0002, 0x0003) (DataElement ''UI'' (Str ''9.9.9'')) fmempty\<rparr>"

text \<open>A file without private elements whose meta identifier differs from the body's.\<close>

definition ex_mismatch :: file_dataset where
  "ex_mismatch =
     \<lparr>body = fmupd (0x0008, 0x0018) (DataElement ''UI'' (Str ''1.2.3''))
              (fmupd (0x0010, 0x0010) (DataElement ''PN'' (Str ''Jane Doe'')) fmempty),
      file_meta = fmupd (0x0002, 0x0003) (DataElement ''UI'' (Str ''9.9.9'')) fmempty\<rparr>"



text \<open>A body whose only element is a public sequence with a private element in its item.\<close>

definition ex_nested :: file_dataset where
  "ex_nested =
     \<lparr>body = fmupd (0x0008, 0x1140)
        (DataElement ''SQ''
           (Seq [fmupd (0x0009, 0x0010) (DataElement ''LO'' (Str ''vendor'')) fmempty]))
        fmempty,
      file_meta = fmempty\<rparr>"

text \<open>The same library with another run of the generator.\<close>

definition ex_lib2 :: library where
  "ex_lib2 = \<lparr>generate_uid = (\<lambda>n. ''1.2.840.'' @ replicate (Suc n) CHR ''9''),
     rejects_empty = (\<lambda>vr. vr = ''US'')\<rparr>"

section \<open>The rewrite of one tag and of the selection\<close>

lemma private_free_val_Seq:
  "private_free_val (Seq items) = (\<forall>d \<in> set items. private_free d)"
  by (simp add: private_free_def list_all_iff fmpred_map)

lemma anonymize_tag_other:
  "t \<noteq> u \<Longrightarrow> fmlookup (fst (anonymize_tag lib u (ds, st))) t = fmlookup ds t"
  by (simp add: anonymize_tag_def set_value_def Let_def split: option.splits)

lemma anonymize_tag_absent:
  "fmlookup ds u = None \<Longrightarrow> anonymize_tag lib u (ds, st) = (ds, st)"
  by (simp add: anonymize_tag_def)

lemma anonymize_tag_VR:
  "fmlookup (fst (anonymize_tag lib u (ds, st))) t = Some e' \<Longrightarrow>
     \<exists>e. fmlookup ds t = Some e \<and> VR e' = VR e"
  by (cases "t = u") (auto simp add: anonymize_tag_def set_value_def Let_def split: option.splits if_splits)

lemma anonymize_tag_fixed:
  "fmlookup ds t = Some e \<Longrightarrow> VR e \<noteq> ''UI'' \<Longrightarrow>
     fmlookup (fst (anonymize_tag lib t (ds, st))) t = VR_rewrite_policy lib e"
  by (simp add: anonymize_tag_def set_value_def Let_def VR_rewrite_policy_def)

lemma VR_rewrite_policy_VR:
  "VR_rewrite_policy lib e = Some e' \<Longrightarrow> VR e' = VR e"
  by (auto simp add: VR_rewrite_policy_def split: if_splits)

lemma VR_rewrite_policy_cong:
  "VR e' = VR e \<Longrightarrow> VR_rewrite_policy lib e' = VR_rewrite_policy lib e"
  by (simp add: VR_rewrite_policy_def)

lemma VR_rewrite_policy_idem:
  "VR_rewrite_policy lib e = Some e' \<Longrightarrow> VR_rewrite_policy lib e' = Some e'"
  using VR_rewrite_policy_cong [of e' e lib] VR_rewrite_policy_VR [of lib e e'] by simp

lemma anonymize_tag_files:
  "files (snd (anonymize_tag lib u s)) = files (snd s)"
  by (cases s) (simp add: anonymize_tag_def Let_def split: option.splits)

lemma anonymize_tag_uid_count:
  "uid_count (snd s) \<le> uid_count (snd (anonymize_tag lib u s))"
  by (cases s) (simp add: anonymize_tag_def Let_def split: option.splits)


lemma anonymize_tags_files:
  "files (snd (anonymize_tags lib sel s)) = files (snd s)"
  by (induction sel arbitrary: s) (simp_all add: anonymize_tag_files)

lemma anonymize_tags_uid_count:
  "uid_count (snd s) \<le> uid_count (snd (anonymize_tags lib sel s))"
proof (induction sel arbitrary: s)
  case Nil
  show ?case by simp
next
  case (Cons u us)
  have "uid_count (snd s) \<le> uid_count (snd (anonymize_tag lib u s))"
    by (rule anonymize_tag_uid_count)
  also have "\<dots> \<le> uid_count (snd (anonymize_tags lib us (anonymize_tag lib u s)))"
    by (rule Cons.IH)
  finally show ?case by simp
qed


lemma anonymize_tags_VR:
  "fmlookup (fst (anonymize_tags lib sel s)) t = Some e' \<Longrightarrow>
     \<exists>e. fmlookup (fst s) t = Some e \<and> VR e' = VR e"
proof (induction sel arbitrary: s e')
  case Nil
  then show ?case by simp
next
  case (Cons u us)
  from Cons.prems have "fmlookup (fst (anonymize_tags lib us (anonymize_tag lib u s))) t = Some e'"
    by simp
  from Cons.IH [OF this] obtain e1 where
    e1: "fmlookup (fst (anonymize_tag lib u s)) t = Some e1" "VR e' = VR e1"
    by blast
  obtain ds st where s: "s = (ds, st)" by (cases s)
  from e1(1) anonymize_tag_VR [of lib u ds st t e1] s obtain e where
    "fmlookup ds t = Some e" "VR e1 = VR e" by auto
  with e1(2) s show ?case by simp
qed

lemma anonymize_tags_absent:
  "fmlookup (fst s) t = None \<Longrightarrow> fmlookup (fst (anonymize_tags lib sel s)) t = None"
  using anonymize_tags_VR [of lib sel s t]
  by (cases "fmlookup (fst (anonymize_tags lib sel s)) t") auto

lemma anonymize_tags_unselected:
  "t \<notin> set sel \<Longrightarrow> fmlookup (fst (anonymize_tags lib sel s)) t = fmlookup (fst s) t"
proof (induction sel arbitrary: s)
  case Nil
  show ?case by simp
next
  case (Cons u us)
  obtain ds st where s: "s = (ds, st)" by (cases s)
  from Cons.prems have "t \<noteq> u" "t \<notin> set us" by auto
  then show ?case
    using Cons.IH [of "anonymize_tag lib u s"] anonymize_tag_other [of t u lib ds st] s
    by simp
qed

lemma anonymize_tags_skip:
  "\<forall>t \<in> set sel. fmlookup (fst s) t = None \<Longrightarrow> anonymize_tags lib sel s = s"
proof (induction sel arbitrary: s)
  case Nil
  show ?case by simp
next
  case (Cons u us)
  obtain ds st where s: "s = (ds, st)" by (cases s)
  with Cons.prems have "anonymize_tag lib u s = s"
    by (simp add: anonymize_tag_absent)
  with Cons show ?case by simp
qed

lemma fmlookup_remove_private_tags:
  "fmlookup (remove_private_tags ds) t =
     (if is_private t then None else map_option remove_private_elem (fmlookup ds t))"
  by (simp add: remove_private_tags_def)

lemma VR_remove_private_elem: "VR (remove_private_elem e) = VR e"
  by (cases e) simp

lemma rewrite_pass_fst:
  "fst (rewrite_pass lib sel s) = remove_private_tags (fst (anonymize_tags lib sel s))"
  by (simp add: rewrite_pass_def split_beta)

lemma rewrite_pass_snd:
  "snd (rewrite_pass lib sel s) = snd (anonymize_tags lib sel s)"
  by (simp add: rewrite_pass_def split_beta)

section \<open>The whole function\<close>

lemma rewrite_pass_absent:
  "fmlookup ds t = None \<Longrightarrow> fmlookup (fst (rewrite_pass lib sel (ds, st))) t = None"
  using anonymize_tags_absent [of "(ds, st)" t lib sel]
  by (simp add: rewrite_pass_fst fmlookup_remove_private_tags)

lemma rewrite_pass_files:
  "files (snd (rewrite_pass lib sel s)) = files (snd s)"
  by (simp add: rewrite_pass_snd anonymize_tags_files)

lemma anonymize_dicom_file_Dicom:
  "files st input_path = Some (Dicom f) \<Longrightarrow>
   anonymize_dicom_file lib input_path output_path sel st =
     (case update_file_meta (f\<lparr>body := fst (rewrite_pass lib sel (body f, st))\<rparr>) of
        Inl e \<Rightarrow> (Inl e, snd (rewrite_pass lib sel (body f, st)))
      | Inr out \<Rightarrow>
          (Inr True,
           (snd (rewrite_pass lib sel (body f, st)))
             \<lparr>files := (files (snd (rewrite_pass lib sel (body f, st))))(output_path \<mapsto> Dicom out),
              log := log (snd (rewrite_pass lib sel (body f, st))) @
                       [Info_anonymized input_path output_path]\<rparr>))"
  by (simp add: anonymize_dicom_file_def split_beta)

section \<open>The removal of private elements\<close>

declare private_free_val.simps(2) [simp del]
declare private_free_val_Seq [simp]

lemma private_free_iff:
  "private_free ds \<longleftrightarrow>
     (\<forall>t e. fmlookup ds t = Some e \<longrightarrow> \<not> is_private t \<and> private_free_elem e)"
  by (simp add: private_free_def fmpred_iff)

lemma private_free_remove_private_item:
  assumes "\<And>e. e \<in> fmran' d \<Longrightarrow> private_free_elem (remove_private_elem e)"
  shows "private_free (fmfilter (\<lambda>t. \<not> is_private t) (fmmap remove_private_elem d))"
  unfolding private_free_iff
proof (intro allI impI)
  fix t e
  assume "fmlookup (fmfilter (\<lambda>t. \<not> is_private t) (fmmap remove_private_elem d)) t = Some e"
  then obtain x where x: "\<not> is_private t" "fmlookup d t = Some x" "e = remove_private_elem x"
    by (auto split: if_splits)
  from x(2) have "x \<in> fmran' d" by (rule fmran'I)
  with assms x show "\<not> is_private t \<and> private_free_elem e" by simp
qed

lemma private_free_remove_private:
  shows "private_free_elem (remove_private_elem e)"
    and "private_free_val (remove_private_val v)"
proof (induction e and v)
  case (DataElement vr v)
  then show ?case by simp
next
  case (Str s)
  show ?case by simp
next
  case (Seq items)
  have "private_free (fmfilter (\<lambda>t. \<not> is_private t) (fmmap remove_private_elem d))"
    if "d \<in> set items" for d
    using Seq [OF that] by (rule private_free_remove_private_item)
  then show ?case by (simp del: fmfilter_fmmap)
qed

lemma private_free_remove_private_tags: "private_free (remove_private_tags ds)"
  unfolding remove_private_tags_def
  by (rule private_free_remove_private_item) (rule private_free_remove_private(1))

lemma remove_private_item_id:
  assumes "private_free d"
    and "\<And>e. e \<in> fmran' d \<Longrightarrow> private_free_elem e \<Longrightarrow> remove_private_elem e = e"
  shows "fmfilter (\<lambda>t. \<not> is_private t) (fmmap remove_private_elem d) = d"
proof (rule fmap_ext)
  fix t
  show "fmlookup (fmfilter (\<lambda>t. \<not> is_private t) (fmmap remove_private_elem d)) t = fmlookup d t"
  proof (cases "fmlookup d t")
    case None
    then show ?thesis by simp
  next
    case (Some x)
    with assms(1) have "\<not> is_private t \<and> private_free_elem x"
      unfolding private_free_iff by blast
    moreover from Some have "x \<in> fmran' d" by (rule fmran'I)
    ultimately show ?thesis using Some assms(2) by simp
  qed
qed

lemma remove_private_id:
  shows "private_free_elem e \<Longrightarrow> remove_private_elem e = e"
    and "private_free_val v \<Longrightarrow> remove_private_val v = v"
proof (induction e and v)
  case (DataElement vr v)
  then show ?case by simp
next
  case (Str s)
  show ?case by simp
next
  case (Seq items)
  have "fmfilter (\<lambda>t. \<not> is_private t) (fmmap remove_private_elem d) = d"
    if "d \<in> set items" for d
  proof (rule remove_private_item_id)
    from Seq.prems that show "private_free d" by simp
  next
    fix e assume "e \<in> fmran' d" "private_free_elem e"
    with that show "remove_private_elem e = e" by (rule Seq.IH)
  qed
  then have "map (\<lambda>d. fmfilter (\<lambda>t. \<not> is_private t) (fmmap remove_private_elem d)) items = items"
    by (simp add: map_idI del: fmfilter_fmmap)
  then show ?case by (simp add: comp_def del: fmfilter_fmmap)
qed

lemma remove_private_tags_id: "private_free ds \<Longrightarrow> remove_private_tags ds = ds"
  unfolding remove_private_tags_def
  by (rule remove_private_item_id) (simp_all add: remove_private_id(1))


section \<open>The outcomes of the whole function\<close>




lemma anonymize_dicom_file_True_decoded:
  "fst (anonymize_dicom_file lib input_path output_path sel st) = Inr True \<Longrightarrow>
     \<exists>f. files st input_path = Some (Dicom f)"
  by (auto simp add: anonymize_dicom_file_def split: option.splits file_content.splits)

text \<open>The equations that evaluate the function on a concrete input.\<close>

lemmas eval_defs =
  anonymize_dicom_file_def rewrite_pass_def anonymize_tag_def set_value_def
  remove_private_tags_def update_file_meta_def is_private_def
  MediaStorageSOPInstanceUID_def SOPInstanceUID_def ex_state_def ex_lib_def Let_def
  fmmap_fmupd

lemma ex_file_run:
  "files (snd (anonymize_dicom_file ex_lib ''data/in.dcm'' ''data/anonymized/in.dcm'' [(0x0008, 0x0018)]
      (ex_state ex_file))) ''data/anonymized/in.dcm'' =
    Some (Dicom \<lparr>body = fmupd (0x0008, 0x0018) (DataElement ''UI'' (Str ''2.25.7''))
              (fmupd (0x0010, 0x0010) (DataElement ''PN'' (Str ''Jane Doe''))
              (fmupd (0x0010, 0x0030) (DataElement ''DA'' (Str ''19850604'')) fmempty)),
      file_meta = fmupd (0x0002, 0x0003) (DataElement ''UI'' (Str ''2.25.7'')) fmempty\<rparr>)"
  by (simp add: eval_defs ex_file_def)

lemma returns_False_iff:
  "fst (anonymize_dicom_file lib input_path output_path sel st) = Inr False \<longleftrightarrow>
     files st input_path = Some NotDicom"
  by (auto simp add: anonymize_dicom_file_def split_beta
      split: option.splits file_content.splits sum.splits)

lemma rewrite_pass_Nil: "rewrite_pass lib [] (ds, st) = (remove_private_tags ds, st)"
  by (simp add: rewrite_pass_def)

lemma private_free_fmupd:
  "private_free ds \<Longrightarrow> \<not> is_private t \<Longrightarrow> private_free_elem e \<Longrightarrow>
     private_free (fmupd t e ds)"
  unfolding private_free_def by (rule fmpred_upd) simp_all

lemma private_free_fmempty: "private_free fmempty"
  by (simp add: private_free_iff)

section \<open>The replacement written for a selected tag\<close>

lemma anonymize_tag_UI:
  "fmlookup ds t = Some e \<Longrightarrow> VR e = ''UI'' \<Longrightarrow>
     anonymize_tag lib t (ds, st) =
       (fmupd t (DataElement ''UI'' (Str (generate_uid lib (uid_count st)))) ds,
        st\<lparr>uid_count := Suc (uid_count st)\<rparr>)"
  by (simp add: anonymize_tag_def set_value_def)


lemma anonymize_tag_stable:
  assumes "VR e \<noteq> ''UI''" and "fmlookup ds t = VR_rewrite_policy lib e"
  shows "fmlookup (fst (anonymize_tag lib u (ds, st))) t = VR_rewrite_policy lib e"
proof (cases "u = t")
  case False
  then show ?thesis using assms(2) by (simp add: anonymize_tag_other)
next
  case True
  show ?thesis
  proof (cases "VR_rewrite_policy lib e")
    case None
    with assms(2) True show ?thesis by (simp add: anonymize_tag_absent)
  next
    case (Some e')
    then have "VR e' = VR e" by (rule VR_rewrite_policy_VR)
    with assms(1) have "VR e' \<noteq> ''UI''" by simp
    moreover from Some assms(2) have "fmlookup ds t = Some e'" by simp
    ultimately have "fmlookup (fst (anonymize_tag lib t (ds, st))) t = VR_rewrite_policy lib e'"
      by (rule anonymize_tag_fixed [rotated])
    also from Some have "\<dots> = Some e'" by (rule VR_rewrite_policy_idem)
    finally show ?thesis using Some True by simp
  qed
qed

lemma anonymize_tags_stable:
  "VR e \<noteq> ''UI'' \<Longrightarrow> fmlookup (fst s) t = VR_rewrite_policy lib e \<Longrightarrow>
     fmlookup (fst (anonymize_tags lib sel s)) t = VR_rewrite_policy lib e"
proof (induction sel arbitrary: s)
  case Nil
  then show ?case by simp
next
  case (Cons u us)
  obtain ds st where s: "s = (ds, st)" by (cases s)
  from Cons.prems s have "fmlookup (fst (anonymize_tag lib u s)) t = VR_rewrite_policy lib e"
    by (simp add: anonymize_tag_stable)
  with Cons.prems(1) show ?case by (simp add: Cons.IH)
qed

lemma anonymize_tags_fixed:
  "t \<in> set sel \<Longrightarrow> fmlookup (fst s) t = Some e \<Longrightarrow> VR e \<noteq> ''UI'' \<Longrightarrow>
     fmlookup (fst (anonymize_tags lib sel s)) t = VR_rewrite_policy lib e"
proof (induction sel arbitrary: s)
  case Nil
  then show ?case by simp
next
  case (Cons u us)
  obtain ds st where s: "s = (ds, st)" by (cases s)
  show ?case
  proof (cases "u = t")
    case True
    from Cons.prems(2,3) s have "fmlookup (fst (anonymize_tag lib t s)) t = VR_rewrite_policy lib e"
      by (simp add: anonymize_tag_fixed)
    with Cons.prems(3) True show ?thesis by (simp add: anonymize_tags_stable)
  next
    case False
    with Cons.prems(1) have "t \<in> set us" by simp
    moreover from False Cons.prems(2) s have "fmlookup (fst (anonymize_tag lib u s)) t = Some e"
      by (simp add: anonymize_tag_other)
    ultimately show ?thesis using Cons.prems(3) by (simp add: Cons.IH)
  qed
qed

lemma holds_generated_first:
  assumes "fmlookup ds t = Some e" and "VR e = ''UI''"
  shows "holds_generated lib (uid_count st) t (anonymize_tag lib t (ds, st))"
  unfolding holds_generated_def anonymize_tag_UI [OF assms]
  by (rule exI [of _ "uid_count st"]) simp

lemma holds_generated_step:
  assumes "holds_generated lib n t (ds, st)"
  shows "holds_generated lib n t (anonymize_tag lib u (ds, st))"
proof -
  from assms obtain k where k: "n \<le> k" "k < uid_count st"
      "fmlookup ds t = Some (DataElement ''UI'' (Str (generate_uid lib k)))"
    by (auto simp add: holds_generated_def)
  show ?thesis
  proof (cases "u = t")
    case True
    from k(3) have "anonymize_tag lib t (ds, st) =
        (fmupd t (DataElement ''UI'' (Str (generate_uid lib (uid_count st)))) ds,
         st\<lparr>uid_count := Suc (uid_count st)\<rparr>)"
      by (rule anonymize_tag_UI) simp
    moreover from k have "n \<le> uid_count st" by simp
    ultimately show ?thesis
      unfolding holds_generated_def True
      by (intro exI [of _ "uid_count st"]) simp
  next
    case False
    have "k < uid_count (snd (anonymize_tag lib u (ds, st)))"
      using k(2) anonymize_tag_uid_count [of "(ds, st)" lib u] by simp
    moreover have "fmlookup (fst (anonymize_tag lib u (ds, st))) t =
        Some (DataElement ''UI'' (Str (generate_uid lib k)))"
      using False k(3) by (simp add: anonymize_tag_other)
    ultimately show ?thesis
      unfolding holds_generated_def using k(1) by blast
  qed
qed

lemma holds_generated_loop:
  "holds_generated lib n t s \<Longrightarrow> holds_generated lib n t (anonymize_tags lib sel s)"
proof (induction sel arbitrary: s)
  case Nil
  then show ?case by simp
next
  case (Cons u us)
  obtain ds st where s: "s = (ds, st)" by (cases s)
  from Cons.prems s have "holds_generated lib n t (anonymize_tag lib u s)"
    by (simp add: holds_generated_step)
  then show ?case by (simp add: Cons.IH)
qed

lemma holds_generated_mono: "m \<le> n \<Longrightarrow> holds_generated lib n t s \<Longrightarrow> holds_generated lib m t s"
  unfolding holds_generated_def by (meson le_trans)

lemma anonymize_tags_UI:
  "t \<in> set sel \<Longrightarrow> fmlookup (fst s) t = Some e \<Longrightarrow> VR e = ''UI'' \<Longrightarrow>
     holds_generated lib (uid_count (snd s)) t (anonymize_tags lib sel s)"
proof (induction sel arbitrary: s)
  case Nil
  then show ?case by simp
next
  case (Cons u us)
  obtain ds st where s: "s = (ds, st)" by (cases s)
  show ?case
  proof (cases "u = t")
    case True
    from Cons.prems(2,3) s have "holds_generated lib (uid_count st) t (anonymize_tag lib t (ds, st))"
      by (simp add: holds_generated_first)
    then show ?thesis using True s by (simp add: holds_generated_loop)
  next
    case False
    with Cons.prems(1) have "t \<in> set us" by simp
    moreover from False Cons.prems(2) s have "fmlookup (fst (anonymize_tag lib u s)) t = Some e"
      by (simp add: anonymize_tag_other)
    ultimately have "holds_generated lib (uid_count (snd (anonymize_tag lib u s))) t
        (anonymize_tags lib us (anonymize_tag lib u s))"
      using Cons.prems(3) by (rule Cons.IH)
    then show ?thesis
      using anonymize_tag_uid_count [of s lib u] by (simp add: holds_generated_mono)
  qed
qed


lemma VR_rewrite_policy_text:
  "vr \<in> set [''PN'', ''SH'', ''LO'', ''ST'', ''LT''] \<Longrightarrow> VR e = vr \<Longrightarrow>
     VR e \<noteq> ''UI'' \<and> VR_rewrite_policy lib e = Some (DataElement vr (Str ''ANONYMIZED''))"
  by (auto simp add: VR_rewrite_policy_def)

lemma VR_rewrite_policy_DA:
  "VR e = ''DA'' \<Longrightarrow>
     VR e \<noteq> ''UI'' \<and> VR_rewrite_policy lib e = Some (DataElement ''DA'' (Str ''18000101''))"
  by (simp add: VR_rewrite_policy_def)

lemma VR_rewrite_policy_TM:
  "VR e = ''TM'' \<Longrightarrow>
     VR e \<noteq> ''UI'' \<and> VR_rewrite_policy lib e = Some (DataElement ''TM'' (Str ''000000''))"
  by (simp add: VR_rewrite_policy_def)

lemma VR_rewrite_policy_number:
  "vr \<in> set [''DS'', ''IS''] \<Longrightarrow> VR e = vr \<Longrightarrow>
     VR e \<noteq> ''UI'' \<and> VR_rewrite_policy lib e = Some (DataElement vr (Str ''0''))"
  by (auto simp add: VR_rewrite_policy_def)




lemma VR_rewrite_policy_Str:
  "VR_rewrite_policy lib e = Some e' \<Longrightarrow> \<exists>s. e' = DataElement (VR e) (Str s)"
  by (auto simp add: VR_rewrite_policy_def split: if_splits)

lemma rewrite_pass_present:
  assumes "fmlookup (fst (rewrite_pass lib sel s)) t = Some e"
  shows "\<not> is_private t" and "remove_private_elem e = e"
    and "\<exists>x. fmlookup (fst (anonymize_tags lib sel s)) t = Some x \<and> e = remove_private_elem x"
proof -
  from assms show "\<not> is_private t"
    by (simp add: rewrite_pass_fst fmlookup_remove_private_tags split: if_splits)
  from assms show "\<exists>x. fmlookup (fst (anonymize_tags lib sel s)) t = Some x
      \<and> e = remove_private_elem x"
    by (auto simp add: rewrite_pass_fst fmlookup_remove_private_tags split: if_splits)
  then show "remove_private_elem e = e"
    using private_free_remove_private(1) remove_private_id(1) by auto
qed

lemma rewrite_pass_keeps:
  assumes "fmlookup (fst (anonymize_tags lib sel s)) t = Some e"
    and "\<not> is_private t" and "remove_private_elem e = e"
  shows "fmlookup (fst (rewrite_pass lib sel s)) t = Some e"
  using assms by (simp add: rewrite_pass_fst fmlookup_remove_private_tags)

lemma anonymize_tags_selected_result:
  assumes "t \<in> set sel" and "fmlookup (fst (anonymize_tags lib sel s)) t = Some x"
    and "VR x \<noteq> ''UI''"
  shows "VR_rewrite_policy lib x = Some x"
proof -
  from anonymize_tags_VR [OF assms(2)] obtain e0 where
    e0: "fmlookup (fst s) t = Some e0" "VR x = VR e0" by blast
  with assms(3) have "VR e0 \<noteq> ''UI''" by simp
  with assms(1) e0(1) have "fmlookup (fst (anonymize_tags lib sel s)) t = VR_rewrite_policy lib e0"
    by (rule anonymize_tags_fixed)
  with assms(2) have "VR_rewrite_policy lib e0 = Some x" by simp
  then show ?thesis by (rule VR_rewrite_policy_idem)
qed

section \<open>What the rewrite leaves alone\<close>

lemma private_free_lookup:
  "private_free ds \<Longrightarrow> is_private t \<Longrightarrow> fmlookup ds t = None"
  unfolding private_free_iff by (cases "fmlookup ds t") blast+

lemma private_free_rewrite_pass: "private_free (fst (rewrite_pass lib sel s))"
  by (simp add: rewrite_pass_fst private_free_remove_private_tags)

lemma update_file_meta_result:
  assumes "update_file_meta f = Inr out"
  shows "body out = body f"
    and "fmlookup (file_meta out) t = None \<longleftrightarrow> fmlookup (file_meta f) t = None"
  using assms
  by (auto simp add: update_file_meta_def set_value_def split: option.splits if_splits)

lemma anonymize_dicom_file_True:
  assumes "files st input_path = Some (Dicom f)"
    and "fst (anonymize_dicom_file lib input_path output_path sel st) = Inr True"
  shows "\<exists>out. update_file_meta (f\<lparr>body := fst (rewrite_pass lib sel (body f, st))\<rparr>) = Inr out
     \<and> files (snd (anonymize_dicom_file lib input_path output_path sel st)) output_path
         = Some (Dicom out)"
  using assms by (auto simp add: anonymize_dicom_file_Dicom split: sum.splits)

lemma anonymize_tags_filter:
  "\<forall>t \<in> set sel. \<not> P t \<longrightarrow> fmlookup (fst s) t = None \<Longrightarrow>
     anonymize_tags lib (filter P sel) s = anonymize_tags lib sel s"
proof (induction sel arbitrary: s)
  case Nil
  show ?case by simp
next
  case (Cons u us)
  obtain ds st where s: "s = (ds, st)" by (cases s)
  show ?case
  proof (cases "P u")
    case True
    have "\<forall>t \<in> set us. \<not> P t \<longrightarrow> fmlookup (fst (anonymize_tag lib u s)) t = None"
    proof (intro ballI impI)
      fix t assume "t \<in> set us" "\<not> P t"
      with Cons.prems have "fmlookup (fst s) t = None" by simp
      then show "fmlookup (fst (anonymize_tag lib u s)) t = None"
        using anonymize_tags_absent [of s t lib "[u]"] by simp
    qed
    with True show ?thesis by (simp add: Cons.IH)
  next
    case False
    with Cons.prems s have "anonymize_tag lib u s = s"
      by (simp add: anonymize_tag_absent)
    moreover from Cons.prems have "\<forall>t \<in> set us. \<not> P t \<longrightarrow> fmlookup (fst s) t = None"
      by simp
    ultimately show ?thesis using False by (simp add: Cons.IH)
  qed
qed

lemma rewrite_pass_VR:
  assumes "fmlookup (fst (rewrite_pass lib sel s)) t = Some e'"
  shows "\<exists>e. fmlookup (fst s) t = Some e \<and> VR e' = VR e"
proof -
  from rewrite_pass_present(3) [OF assms] obtain x where
    x: "fmlookup (fst (anonymize_tags lib sel s)) t = Some x" "e' = remove_private_elem x"
    by blast
  from anonymize_tags_VR [OF x(1)] obtain e where "fmlookup (fst s) t = Some e" "VR x = VR e"
    by blast
  with x(2) show ?thesis by (simp add: VR_remove_private_elem)
qed

lemma rewrite_pass_unselected:
  "t \<notin> set sel \<Longrightarrow> \<not> is_private t \<Longrightarrow>
     fmlookup (fst (rewrite_pass lib sel s)) t = map_option remove_private_elem (fmlookup (fst s) t)"
  by (simp add: rewrite_pass_fst fmlookup_remove_private_tags anonymize_tags_unselected)

section \<open>Two runs on the same dataset\<close>

lemma agree_up_to_UI_I:
  assumes "\<And>t. fmlookup d1 t = fmlookup d2 t
        \<or> (t \<in> S \<and> (\<exists>v1 v2. fmlookup d1 t = Some (DataElement ''UI'' v1)
                          \<and> fmlookup d2 t = Some (DataElement ''UI'' v2)))"
  shows "agree_up_to_UI S d1 d2"
  unfolding agree_up_to_UI_def using assms by blast

lemma agree_up_to_UI_D:
  assumes "agree_up_to_UI S d1 d2"
  shows "fmlookup d1 t = fmlookup d2 t
        \<or> (t \<in> S \<and> (\<exists>v1 v2. fmlookup d1 t = Some (DataElement ''UI'' v1)
                          \<and> fmlookup d2 t = Some (DataElement ''UI'' v2)))"
  using assms unfolding agree_up_to_UI_def by blast

lemma agree_up_to_UI_refl: "agree_up_to_UI S d d"
  by (rule agree_up_to_UI_I) simp

lemma VR_rewrite_policy_lib:
  "rejects_empty lib1 = rejects_empty lib2 \<Longrightarrow> VR_rewrite_policy lib1 e = VR_rewrite_policy lib2 e"
  by (simp add: VR_rewrite_policy_def)

lemma anonymize_tag_UI_lookup:
  "fmlookup ds t = Some e \<Longrightarrow> VR e = ''UI'' \<Longrightarrow>
     fmlookup (fst (anonymize_tag lib t (ds, st))) t
       = Some (DataElement ''UI'' (Str (generate_uid lib (uid_count st))))"
  by (simp add: anonymize_tag_UI)

lemma anonymize_tag_UI_some:
  assumes "fmlookup ds u = Some e" and "VR e = ''UI''"
  shows "\<exists>v. fmlookup (fst (anonymize_tag lib u (ds, st))) u = Some (DataElement ''UI'' v)"
  unfolding anonymize_tag_UI_lookup [OF assms] by blast

lemma anonymize_tag_agree_same:
  assumes at: "fmlookup d1 u = fmlookup d2 u
      \<or> (\<exists>v1 v2. fmlookup d1 u = Some (DataElement ''UI'' v1)
            \<and> fmlookup d2 u = Some (DataElement ''UI'' v2))"
    and lib: "rejects_empty lib1 = rejects_empty lib2"
  shows "fmlookup (fst (anonymize_tag lib1 u (d1, s1))) u
           = fmlookup (fst (anonymize_tag lib2 u (d2, s2))) u
       \<or> (\<exists>v1 v2. fmlookup (fst (anonymize_tag lib1 u (d1, s1))) u = Some (DataElement ''UI'' v1)
            \<and> fmlookup (fst (anonymize_tag lib2 u (d2, s2))) u = Some (DataElement ''UI'' v2))"
proof -
  have both_UI: ?thesis
    if "fmlookup d1 u = Some e1" "VR e1 = ''UI''" "fmlookup d2 u = Some e2" "VR e2 = ''UI''"
    for e1 e2
    using anonymize_tag_UI_some [OF that(1,2), of lib1 s1]
      anonymize_tag_UI_some [OF that(3,4), of lib2 s2]
    by blast
  from at show ?thesis
  proof
    assume eq: "fmlookup d1 u = fmlookup d2 u"
    show ?thesis
    proof (cases "fmlookup d1 u")
      case None
      with eq have "fmlookup d2 u = None" by simp
      with None have "anonymize_tag lib1 u (d1, s1) = (d1, s1)"
          "anonymize_tag lib2 u (d2, s2) = (d2, s2)"
        by (simp_all only: anonymize_tag_absent)
      with eq show ?thesis by simp
    next
      case (Some e)
      with eq have e2: "fmlookup d2 u = Some e" by simp
      show ?thesis
      proof (cases "VR e = ''UI''")
        case True
        with Some e2 show ?thesis by (intro both_UI)
      next
        case False
        have "fmlookup (fst (anonymize_tag lib1 u (d1, s1))) u = VR_rewrite_policy lib1 e"
          using Some False by (rule anonymize_tag_fixed)
        moreover have "fmlookup (fst (anonymize_tag lib2 u (d2, s2))) u = VR_rewrite_policy lib2 e"
          using e2 False by (rule anonymize_tag_fixed)
        moreover have "VR_rewrite_policy lib1 e = VR_rewrite_policy lib2 e"
          using lib by (rule VR_rewrite_policy_lib)
        ultimately show ?thesis by simp
      qed
    qed
  next
    assume "\<exists>v1 v2. fmlookup d1 u = Some (DataElement ''UI'' v1)
        \<and> fmlookup d2 u = Some (DataElement ''UI'' v2)"
    then obtain v1 v2 where v: "fmlookup d1 u = Some (DataElement ''UI'' v1)"
        "fmlookup d2 u = Some (DataElement ''UI'' v2)"
      by blast
    have "VR (DataElement ''UI'' v1) = ''UI''" "VR (DataElement ''UI'' v2) = ''UI''"
      by simp_all
    with v show ?thesis using both_UI by blast
  qed
qed

lemma anonymize_tag_agree:
  assumes agree: "agree_up_to_UI S d1 d2" and u: "u \<in> S"
    and lib: "rejects_empty lib1 = rejects_empty lib2"
  shows "agree_up_to_UI S (fst (anonymize_tag lib1 u (d1, s1))) (fst (anonymize_tag lib2 u (d2, s2)))"
proof (rule agree_up_to_UI_I)
  fix t
  let ?o1 = "fmlookup (fst (anonymize_tag lib1 u (d1, s1))) t"
  let ?o2 = "fmlookup (fst (anonymize_tag lib2 u (d2, s2))) t"
  note at = agree_up_to_UI_D [OF agree, of t]
  show "?o1 = ?o2 \<or> (t \<in> S \<and> (\<exists>v1 v2. ?o1 = Some (DataElement ''UI'' v1)
      \<and> ?o2 = Some (DataElement ''UI'' v2)))"
  proof (cases "t = u")
    case False
    then have "?o1 = fmlookup d1 t" and "?o2 = fmlookup d2 t"
      by (rule anonymize_tag_other)+
    with at show ?thesis by presburger
  next
    case True
    from at have "fmlookup d1 u = fmlookup d2 u
      \<or> (\<exists>v1 v2. fmlookup d1 u = Some (DataElement ''UI'' v1)
            \<and> fmlookup d2 u = Some (DataElement ''UI'' v2))"
      unfolding True by blast
    from anonymize_tag_agree_same [OF this lib, of s1 s2] u show ?thesis
      unfolding True by blast
  qed
qed

lemma anonymize_tags_agree:
  "agree_up_to_UI S d1 d2 \<Longrightarrow> set sel \<subseteq> S \<Longrightarrow> rejects_empty lib1 = rejects_empty lib2 \<Longrightarrow>
     agree_up_to_UI S (fst (anonymize_tags lib1 sel (d1, s1))) (fst (anonymize_tags lib2 sel (d2, s2)))"
proof (induction sel arbitrary: d1 d2 s1 s2)
  case Nil
  then show ?case by simp
next
  case (Cons u us)
  obtain d1' s1' where r1: "anonymize_tag lib1 u (d1, s1) = (d1', s1')"
    by (cases "anonymize_tag lib1 u (d1, s1)")
  obtain d2' s2' where r2: "anonymize_tag lib2 u (d2, s2) = (d2', s2')"
    by (cases "anonymize_tag lib2 u (d2, s2)")
  from Cons.prems have "u \<in> S" "set us \<subseteq> S" by simp_all
  with Cons.prems(1,3) have "agree_up_to_UI S d1' d2'"
    using anonymize_tag_agree [of S d1 d2 u lib1 lib2 s1 s2] r1 r2 by simp
  from Cons.IH [OF this \<open>set us \<subseteq> S\<close> Cons.prems(3)] r1 r2 show ?case by simp
qed

lemma remove_private_tags_agree:
  assumes "agree_up_to_UI S d1 d2"
  shows "agree_up_to_UI S (remove_private_tags d1) (remove_private_tags d2)"
proof (rule agree_up_to_UI_I)
  fix t
  from agree_up_to_UI_D [OF assms, of t]
  show "fmlookup (remove_private_tags d1) t = fmlookup (remove_private_tags d2) t
      \<or> (t \<in> S \<and> (\<exists>v1 v2. fmlookup (remove_private_tags d1) t = Some (DataElement ''UI'' v1)
            \<and> fmlookup (remove_private_tags d2) t = Some (DataElement ''UI'' v2)))"
    by (cases "is_private t") (auto simp add: fmlookup_remove_private_tags)
qed

lemma rewrite_pass_agree:
  assumes "rejects_empty lib1 = rejects_empty lib2"
  shows "agree_up_to_UI (set sel) (fst (rewrite_pass lib1 sel (ds, st1)))
     (fst (rewrite_pass lib2 sel (ds, st2)))"
  unfolding rewrite_pass_fst
  by (intro remove_private_tags_agree anonymize_tags_agree agree_up_to_UI_refl assms) simp

section \<open>The properties claimed by the specification\<close>



text \<open>
  C2.  Whatever the dataset and the selection (the empty one included), the dataset
  after the rewrite and the removal holds no private element at any depth, so no
  element with an odd group number at its top level in particular.  Hence every file
  that the function writes has a body without private elements; its file meta has the
  tags of the input's file meta (which a decoded file keeps in group 0002).
\<close>

theorem no_private_element_survives:
  "private_free (fst (rewrite_pass lib sel (ds, st)))
   \<and> (\<forall>t. is_private t \<longrightarrow> fmlookup (fst (rewrite_pass lib sel (ds, st))) t = None)
   \<and> (files st input_path = Some (Dicom f)
        \<and> fst (anonymize_dicom_file lib input_path output_path sel st) = Inr True \<longrightarrow>
      (\<exists>out. files (snd (anonymize_dicom_file lib input_path output_path sel st)) output_path
                = Some (Dicom out)
            \<and> private_free (body out)
            \<and> (\<forall>t. is_private t \<longrightarrow> fmlookup (body out) t = None)
            \<and> (\<forall>t. fmlookup (file_meta out) t = None \<longleftrightarrow> fmlookup (file_meta f) t = None)))"
proof (intro conjI allI impI)
  show "private_free (fst (rewrite_pass lib sel (ds, st)))"
    by (rule private_free_rewrite_pass)
  fix t assume "is_private t"
  with private_free_rewrite_pass show "fmlookup (fst (rewrite_pass lib sel (ds, st))) t = None"
    by (rule private_free_lookup)
next
  assume a: "files st input_path = Some (Dicom f)
    \<and> fst (anonymize_dicom_file lib input_path output_path sel st) = Inr True"
  then obtain out where
    out: "update_file_meta (f\<lparr>body := fst (rewrite_pass lib sel (body f, st))\<rparr>) = Inr out"
      "files (snd (anonymize_dicom_file lib input_path output_path sel st)) output_path
         = Some (Dicom out)"
    using anonymize_dicom_file_True by blast
  from update_file_meta_result(1) [OF out(1)]
  have b: "body out = fst (rewrite_pass lib sel (body f, st))" by simp
  have free: "private_free (body out)"
    unfolding b by (rule private_free_rewrite_pass)
  have "fmlookup (body out) t = None" if "is_private t" for t
    using free that by (rule private_free_lookup)
  moreover have "fmlookup (file_meta out) t = None \<longleftrightarrow> fmlookup (file_meta f) t = None" for t
    using update_file_meta_result(2) [OF out(1), of t] by simp
  ultimately show "\<exists>out. files (snd (anonymize_dicom_file lib input_path output_path sel st))
        output_path = Some (Dicom out)
      \<and> private_free (body out)
      \<and> (\<forall>t. is_private t \<longrightarrow> fmlookup (body out) t = None)
      \<and> (\<forall>t. fmlookup (file_meta out) t = None \<longleftrightarrow> fmlookup (file_meta f) t = None)"
    using out(2) free by blast
qed

theorem no_private_element_survives_witness:
  "is_private (0x0009, 0x0010)
   \<and> fmlookup (body ex_file) (0x0009, 0x0010) = Some (DataElement ''LO'' (Str ''vendor''))
   \<and> files (ex_state ex_file) ''data/in.dcm'' = Some (Dicom ex_file)
   \<and> fst (anonymize_dicom_file ex_lib ''data/in.dcm'' ''data/anonymized/in.dcm'' [] (ex_state ex_file)) = Inr True
   \<and> (\<exists>out. files (snd (anonymize_dicom_file ex_lib ''data/in.dcm'' ''data/anonymized/in.dcm'' [] (ex_state ex_file)))
               ''data/anonymized/in.dcm'' = Some (Dicom out)
         \<and> fmlookup (body out) (0x0009, 0x0010) = None)"
proof -
  have p: "is_private (0x0009, 0x0010)" by (simp add: is_private_def)
  have e: "fmlookup (body ex_file) (0x0009, 0x0010) = Some (DataElement ''LO'' (Str ''vendor''))"
    by (simp add: ex_file_def)
  have a: "files (ex_state ex_file) ''data/in.dcm'' = Some (Dicom ex_file)"
    by (simp add: ex_state_def)
  have b: "fst (anonymize_dicom_file ex_lib ''data/in.dcm'' ''data/anonymized/in.dcm'' [] (ex_state ex_file)) = Inr True"
    by (simp add: eval_defs ex_file_def)
  from no_private_element_survives [of ex_lib "[]" "body ex_file" "ex_state ex_file" "''data/in.dcm''"
      ex_file "''data/anonymized/in.dcm''"] p e a b
  show ?thesis by blast
qed

text \<open>
  C3.  After the loop over the selection, every selected tag that the dataset held
  has the replacement that its VR determines: ANONYMIZED for PN, SH, LO, ST and LT,
  18000101 for DA, 000000 for TM, 0 for DS and IS, each under the unchanged VR; for UI
  an identifier that the generator handed out during this run (the \<open>k\<close>-th, with
  \<open>k\<close> not below the count at the start), so no constant.
\<close>

theorem replacement_determined_by_VR:
  assumes "t \<in> set sel" and "fmlookup ds t = Some e"
  shows "(VR e \<in> set [''PN'', ''SH'', ''LO'', ''ST'', ''LT''] \<longrightarrow>
            fmlookup (fst (anonymize_tags lib sel (ds, st))) t
              = Some (DataElement (VR e) (Str ''ANONYMIZED'')))
       \<and> (VR e = ''DA'' \<longrightarrow>
            fmlookup (fst (anonymize_tags lib sel (ds, st))) t
              = Some (DataElement ''DA'' (Str ''18000101'')))
       \<and> (VR e = ''TM'' \<longrightarrow>
            fmlookup (fst (anonymize_tags lib sel (ds, st))) t
              = Some (DataElement ''TM'' (Str ''000000'')))
       \<and> (VR e \<in> set [''DS'', ''IS''] \<longrightarrow>
            fmlookup (fst (anonymize_tags lib sel (ds, st))) t
              = Some (DataElement (VR e) (Str ''0'')))
       \<and> (VR e = ''UI'' \<longrightarrow>
            (\<exists>k. uid_count st \<le> k
               \<and> k < uid_count (snd (anonymize_tags lib sel (ds, st)))
               \<and> fmlookup (fst (anonymize_tags lib sel (ds, st))) t
                   = Some (DataElement ''UI'' (Str (generate_uid lib k)))))"
proof -
  have fixed: "fmlookup (fst (anonymize_tags lib sel (ds, st))) t = VR_rewrite_policy lib e"
    if "VR e \<noteq> ''UI''"
    using assms that anonymize_tags_fixed [of t sel "(ds, st)" e lib] by simp
  have c1: ?thesis if "VR e \<in> set [''PN'', ''SH'', ''LO'', ''ST'', ''LT'']"
    using that VR_rewrite_policy_text [OF that refl, of lib] fixed by auto
  have c2: ?thesis if "VR e = ''DA''"
    using that VR_rewrite_policy_DA [OF that, of lib] fixed by simp
  have c3: ?thesis if "VR e = ''TM''"
    using that VR_rewrite_policy_TM [OF that, of lib] fixed by simp
  have c4: ?thesis if "VR e \<in> set [''DS'', ''IS'']"
    using that VR_rewrite_policy_number [OF that refl, of lib] fixed by auto
  have c5: ?thesis if "VR e = ''UI''"
    using that anonymize_tags_UI [of t sel "(ds, st)" e lib] assms
    by (simp add: holds_generated_def)
  have c6: ?thesis
    if "VR e \<notin> set [''UI'', ''PN'', ''SH'', ''LO'', ''ST'', ''LT'', ''DA'', ''TM'', ''DS'', ''IS'']"
    using that by simp
  from c1 c2 c3 c4 c5 c6 show ?thesis by blast
qed

theorem replacement_determined_by_VR_witness:
  "(0x0010, 0x0010) \<in> set [(0x0010, 0x0010), (0x0010, 0x0030), (0x0008, 0x0018 :: 16 word)]
   \<and> fmlookup (body ex_file) (0x0010, 0x0010) = Some (DataElement ''PN'' (Str ''Jane Doe''))
   \<and> fmlookup (body ex_file) (0x0010, 0x0030) = Some (DataElement ''DA'' (Str ''19850604''))
   \<and> fmlookup (body ex_file) (0x0008, 0x0018) = Some (DataElement ''UI'' (Str ''1.2.3''))
   \<and> fmlookup (fst (anonymize_tags ex_lib [(0x0010, 0x0010), (0x0010, 0x0030), (0x0008, 0x0018)]
          (body ex_file, ex_state ex_file))) (0x0010, 0x0010)
        = Some (DataElement ''PN'' (Str ''ANONYMIZED''))
   \<and> fmlookup (fst (anonymize_tags ex_lib [(0x0010, 0x0010), (0x0010, 0x0030), (0x0008, 0x0018)]
          (body ex_file, ex_state ex_file))) (0x0010, 0x0030)
        = Some (DataElement ''DA'' (Str ''18000101''))
   \<and> (\<exists>k. fmlookup (fst (anonymize_tags ex_lib [(0x0010, 0x0010), (0x0010, 0x0030), (0x0008, 0x0018)]
          (body ex_file, ex_state ex_file))) (0x0008, 0x0018)
        = Some (DataElement ''UI'' (Str (generate_uid ex_lib k))))"
proof -
  let ?sel = "[(0x0010, 0x0010), (0x0010, 0x0030), (0x0008, 0x0018 :: 16 word)] :: tag list"
  have pn: "fmlookup (body ex_file) (0x0010, 0x0010) = Some (DataElement ''PN'' (Str ''Jane Doe''))"
    and da: "fmlookup (body ex_file) (0x0010, 0x0030) = Some (DataElement ''DA'' (Str ''19850604''))"
    and ui: "fmlookup (body ex_file) (0x0008, 0x0018) = Some (DataElement ''UI'' (Str ''1.2.3''))"
    by (simp_all add: ex_file_def)
  have s1: "(0x0010, 0x0010) \<in> set ?sel" and s2: "(0x0010, 0x0030) \<in> set ?sel"
    and s3: "(0x0008, 0x0018) \<in> set ?sel"
    by simp_all
  from replacement_determined_by_VR [OF s1 pn, of ex_lib "ex_state ex_file"]
    replacement_determined_by_VR [OF s2 da, of ex_lib "ex_state ex_file"]
    replacement_determined_by_VR [OF s3 ui, of ex_lib "ex_state ex_file"]
    pn da ui
  show ?thesis by auto
qed

text \<open>
  C4.  The function does not return a boolean for every decodable file.  The file
  \<open>ex_no_sop\<close> decodes, its meta holds (0002,0003) and its body has no SOP Instance
  UID (as in a DICOMDIR file); with the whole catalogue selected the function raises
  \<^verbatim>\<open>AttributeError\<close>, which is no I/O condition.
\<close>

theorem decodable_file_raises:
  "files (ex_state ex_no_sop) ''data/in.dcm'' = Some (Dicom ex_no_sop)
   \<and> fst (anonymize_dicom_file ex_lib ''data/in.dcm'' ''data/anonymized/in.dcm'' ALL_TAGS_TO_ANONYMIZE
          (ex_state ex_no_sop)) = Inl AttributeError"
  by (simp add: eval_defs ex_no_sop_def ALL_TAGS_TO_ANONYMIZE_def TAGS_TO_ANONYMIZE_BY_GROUP_def)

text \<open>
  C5.  When the file meta of the decoded file holds (0002,0003) and its body holds no
  SOP Instance UID (0008,0018), the function raises (the read of
  \<^verbatim>\<open>ds.SOPInstanceUID\<close> fails with \<^verbatim>\<open>AttributeError\<close>) instead of returning a
  boolean, whatever the selection, and it writes no file: the files are as before.
\<close>

theorem missing_SOPInstanceUID_raises:
  assumes "files st input_path = Some (Dicom f)"
    and "fmlookup (file_meta f) MediaStorageSOPInstanceUID = Some m"
    and "fmlookup (body f) SOPInstanceUID = None"
  shows "fst (anonymize_dicom_file lib input_path output_path sel st) = Inl AttributeError
       \<and> files (snd (anonymize_dicom_file lib input_path output_path sel st)) = files st"
proof -
  have "fmlookup (fst (rewrite_pass lib sel (body f, st))) SOPInstanceUID = None"
    using assms(3) by (rule rewrite_pass_absent)
  then have "update_file_meta (f\<lparr>body := fst (rewrite_pass lib sel (body f, st))\<rparr>)
      = Inl AttributeError"
    using assms(2) by (simp add: update_file_meta_def)
  then show ?thesis
    using assms(1) rewrite_pass_files [of lib sel "(body f, st)"]
    by (simp add: anonymize_dicom_file_Dicom)
qed

theorem missing_SOPInstanceUID_raises_witness:
  "fst (anonymize_dicom_file ex_lib ''data/in.dcm'' ''data/anonymized/in.dcm'' [(0x0010, 0x0010)] (ex_state ex_no_sop))
      = Inl AttributeError
   \<and> files (snd (anonymize_dicom_file ex_lib ''data/in.dcm'' ''data/anonymized/in.dcm'' [(0x0010, 0x0010)] (ex_state ex_no_sop)))
      ''data/anonymized/in.dcm'' = None"
  using missing_SOPInstanceUID_raises [of "ex_state ex_no_sop" "''data/in.dcm''" ex_no_sop
    "DataElement ''UI'' (Str ''1.2.3'')" ex_lib "''data/anonymized/in.dcm''" "[(0x0010, 0x0010)]"]
  by (simp add: ex_state_def ex_no_sop_def MediaStorageSOPInstanceUID_def SOPInstanceUID_def)




text \<open>
  C7.  Let \<open>s1\<close> be the result of the rewrite (with the removal of the private
  elements) and \<open>s2\<close> the result of running it again, with the same selection, on
  \<open>s1\<close>.  Every element of \<open>s1\<close> with VR PN, SH, LO, ST, LT, DA, TM, DS or IS is
  the same element in \<open>s2\<close>; where its tag is selected its value in \<open>s1\<close> is the
  sentinel of its VR.  A selected element with VR UI holds in \<open>s1\<close> the \<open>j\<close>-th
  generated identifier and in \<open>s2\<close> the \<open>k\<close>-th, where \<open>j\<close> was handed out
  during the first run and \<open>k\<close> during the second: a newly generated identifier.
\<close>

theorem second_run_fixed_point:
  assumes "s1 = rewrite_pass lib sel (ds, st)"
    and "s2 = rewrite_pass lib sel s1"
    and "fmlookup (fst s1) t = Some e"
  shows "(VR e \<in> set [''PN'', ''SH'', ''LO'', ''ST'', ''LT'', ''DA'', ''TM'', ''DS'', ''IS''] \<longrightarrow>
            fmlookup (fst s2) t = Some e)
       \<and> (t \<in> set sel \<longrightarrow>
            (VR e \<in> set [''PN'', ''SH'', ''LO'', ''ST'', ''LT''] \<longrightarrow> val e = Str ''ANONYMIZED'')
          \<and> (VR e = ''DA'' \<longrightarrow> val e = Str ''18000101'')
          \<and> (VR e = ''TM'' \<longrightarrow> val e = Str ''000000'')
          \<and> (VR e \<in> set [''DS'', ''IS''] \<longrightarrow> val e = Str ''0'')
          \<and> (VR e = ''UI'' \<longrightarrow>
               (\<exists>j k. j < uid_count (snd s1) \<and> uid_count (snd s1) \<le> k
                  \<and> k < uid_count (snd s2)
                  \<and> e = DataElement ''UI'' (Str (generate_uid lib j))
                  \<and> fmlookup (fst s2) t = Some (DataElement ''UI'' (Str (generate_uid lib k))))))"
proof -
  note present = rewrite_pass_present [OF assms(3) [unfolded assms(1)]]
  from present(3) obtain x where
    x: "fmlookup (fst (anonymize_tags lib sel (ds, st))) t = Some x" "e = remove_private_elem x"
    by blast
  have vr: "VR x = VR e" using x(2) by (simp add: VR_remove_private_elem)
  have snd1: "snd s1 = snd (anonymize_tags lib sel (ds, st))"
    and snd2: "snd s2 = snd (anonymize_tags lib sel s1)"
    by (simp_all add: assms(1,2) rewrite_pass_snd)
  \<comment> \<open>a selected element that is no identifier is the policy's replacement of itself\<close>
  have sel_fixed: "VR_rewrite_policy lib e = Some e \<and> x = e" if "t \<in> set sel" "VR e \<noteq> ''UI''"
  proof -
    from that vr have "VR_rewrite_policy lib x = Some x"
      using anonymize_tags_selected_result [OF that(1) x(1)] by simp
    moreover from this obtain s where "x = DataElement (VR x) (Str s)"
      using VR_rewrite_policy_Str by blast
    then have "remove_private_elem x = x" by (metis remove_private_elem.simps remove_private_val.simps(1))
    ultimately show ?thesis using x(2) by simp
  qed
  have again: "fmlookup (fst (anonymize_tags lib sel s1)) t = Some e" if "VR e \<noteq> ''UI''"
  proof (cases "t \<in> set sel")
    case True
    from sel_fixed [OF True that] have "VR_rewrite_policy lib e = Some e" by simp
    with anonymize_tags_fixed [OF True assms(3) that, of lib] show ?thesis by simp
  next
    case False
    with assms(3) show ?thesis by (simp add: anonymize_tags_unselected)
  qed
  have unchanged: "fmlookup (fst s2) t = Some e" if "VR e \<noteq> ''UI''"
    unfolding assms(2) using again [OF that] present(1,2) by (rule rewrite_pass_keeps)
  have p1: "fmlookup (fst s2) t = Some e"
    if "VR e \<in> set [''PN'', ''SH'', ''LO'', ''ST'', ''LT'', ''DA'', ''TM'', ''DS'', ''IS'']"
    using that by (intro unchanged) auto
  have p2: "val e = Str ''ANONYMIZED''"
    if "t \<in> set sel" "VR e \<in> set [''PN'', ''SH'', ''LO'', ''ST'', ''LT'']"
    using VR_rewrite_policy_text [OF that(2) refl, of lib] sel_fixed [OF that(1)]
    by (metis data_element.sel(2) option.inject)
  have p3: "val e = Str ''18000101''" if "t \<in> set sel" "VR e = ''DA''"
    using VR_rewrite_policy_DA [OF that(2), of lib] sel_fixed [OF that(1)]
    by (metis data_element.sel(2) option.inject)
  have p4: "val e = Str ''000000''" if "t \<in> set sel" "VR e = ''TM''"
    using VR_rewrite_policy_TM [OF that(2), of lib] sel_fixed [OF that(1)]
    by (metis data_element.sel(2) option.inject)
  have p5: "val e = Str ''0''" if "t \<in> set sel" "VR e \<in> set [''DS'', ''IS'']"
    using VR_rewrite_policy_number [OF that(2) refl, of lib] sel_fixed [OF that(1)]
    by (metis data_element.sel(2) option.inject)
  have p6: "\<exists>j k. j < uid_count (snd s1) \<and> uid_count (snd s1) \<le> k \<and> k < uid_count (snd s2)
      \<and> e = DataElement ''UI'' (Str (generate_uid lib j))
      \<and> fmlookup (fst s2) t = Some (DataElement ''UI'' (Str (generate_uid lib k)))"
    if "t \<in> set sel" "VR e = ''UI''"
  proof -
    from anonymize_tags_VR [OF x(1)] vr that(2) obtain e0 where
      e0: "fmlookup ds t = Some e0" "VR e0 = ''UI''" by auto
    from anonymize_tags_UI [of t sel "(ds, st)" e0 lib] that(1) e0
    obtain j where j: "j < uid_count (snd s1)"
        "fmlookup (fst (anonymize_tags lib sel (ds, st))) t
          = Some (DataElement ''UI'' (Str (generate_uid lib j)))"
      by (auto simp add: holds_generated_def snd1)
    from x(1) j(2) have "x = DataElement ''UI'' (Str (generate_uid lib j))" by simp
    with x(2) have e: "e = DataElement ''UI'' (Str (generate_uid lib j))" by simp
    from anonymize_tags_UI [OF that(1) assms(3) that(2), of lib]
    obtain k where k: "uid_count (snd s1) \<le> k" "k < uid_count (snd s2)"
        "fmlookup (fst (anonymize_tags lib sel s1)) t
          = Some (DataElement ''UI'' (Str (generate_uid lib k)))"
      by (auto simp add: holds_generated_def snd2)
    from k(3) present(1) have "fmlookup (fst s2) t
        = Some (DataElement ''UI'' (Str (generate_uid lib k)))"
      unfolding assms(2) by (rule rewrite_pass_keeps) simp
    with j(1) k(1,2) e show ?thesis by blast
  qed
  from p1 p2 p3 p4 p5 p6 show ?thesis by blast
qed

theorem second_run_fixed_point_witness:
  "fmlookup (fst (rewrite_pass ex_lib [(0x0010, 0x0010), (0x0008, 0x0018)]
       (body ex_file, ex_state ex_file))) (0x0010, 0x0010)
     = Some (DataElement ''PN'' (Str ''ANONYMIZED''))
   \<and> fmlookup (fst (rewrite_pass ex_lib [(0x0010, 0x0010), (0x0008, 0x0018)]
       (rewrite_pass ex_lib [(0x0010, 0x0010), (0x0008, 0x0018)]
         (body ex_file, ex_state ex_file)))) (0x0010, 0x0010)
     = Some (DataElement ''PN'' (Str ''ANONYMIZED''))
   \<and> fmlookup (fst (rewrite_pass ex_lib [(0x0010, 0x0010), (0x0008, 0x0018)]
       (body ex_file, ex_state ex_file))) (0x0008, 0x0018)
     = Some (DataElement ''UI'' (Str ''2.25.7''))
   \<and> (\<exists>k. 1 \<le> k
        \<and> fmlookup (fst (rewrite_pass ex_lib [(0x0010, 0x0010), (0x0008, 0x0018)]
             (rewrite_pass ex_lib [(0x0010, 0x0010), (0x0008, 0x0018)]
               (body ex_file, ex_state ex_file)))) (0x0008, 0x0018)
          = Some (DataElement ''UI'' (Str (generate_uid ex_lib k))))"
proof -
  let ?sel = "[(0x0010, 0x0010), (0x0008, 0x0018)] :: tag list"
  let ?s1 = "rewrite_pass ex_lib ?sel (body ex_file, ex_state ex_file)"
  have pn: "fmlookup (fst ?s1) (0x0010, 0x0010) = Some (DataElement ''PN'' (Str ''ANONYMIZED''))"
    and ui: "fmlookup (fst ?s1) (0x0008, 0x0018) = Some (DataElement ''UI'' (Str ''2.25.7''))"
    and n: "uid_count (snd ?s1) = 1"
    by (simp_all add: eval_defs ex_file_def)
  from second_run_fixed_point [OF refl refl pn] second_run_fixed_point [OF refl refl ui] pn ui n
  show ?thesis by auto
qed

text \<open>
  C8, as stated, fails for a public, unselected sequence element: the removal of the
  private elements descends into its items, so its value changes although the dataset
  has no private element at its top level and nothing is selected.
\<close>

theorem nested_private_element_removed:
  "\<not> is_private (0x0008, 0x1140)
   \<and> (0x0008, 0x1140) \<notin> set ([] :: tag list)
   \<and> fmlookup (body ex_nested) (0x0008, 0x1140)
       = Some (DataElement ''SQ''
           (Seq [fmupd (0x0009, 0x0010) (DataElement ''LO'' (Str ''vendor'')) fmempty]))
   \<and> fmlookup (fst (rewrite_pass ex_lib [] (body ex_nested, ex_state ex_nested))) (0x0008, 0x1140)
       = Some (DataElement ''SQ'' (Seq [fmempty]))
   \<and> fmlookup (fst (rewrite_pass ex_lib [] (body ex_nested, ex_state ex_nested))) (0x0008, 0x1140)
       \<noteq> fmlookup (body ex_nested) (0x0008, 0x1140)"
  by (simp add: eval_defs ex_nested_def)

text \<open>
  C8, amended.  The rewrite and the removal of private elements add no element and
  change no VR: an element found afterwards was there before, with the same VR.
  Selected tags that the dataset does not hold are skipped: dropping them from the
  selection changes nothing, and a selection of absent tags only leaves dataset,
  generator and log as they were.  A public element whose tag is not selected keeps its
  tag and VR, and its value up to the removal of the private elements nested in its
  items, so it keeps its exact value when that holds none.  On a dataset without private
  elements at any depth, the empty selection yields the identical dataset.
\<close>

theorem rewrite_pass_frame:
  "(\<forall>t e'. fmlookup (fst (rewrite_pass lib sel (ds, st))) t = Some e' \<longrightarrow>
       (\<exists>e. fmlookup ds t = Some e \<and> VR e' = VR e))
   \<and> anonymize_tags lib sel (ds, st)
       = anonymize_tags lib (filter (\<lambda>t. fmlookup ds t \<noteq> None) sel) (ds, st)
   \<and> ((\<forall>t \<in> set sel. fmlookup ds t = None) \<longrightarrow> anonymize_tags lib sel (ds, st) = (ds, st))
   \<and> (\<forall>t. t \<notin> set sel \<and> \<not> is_private t \<longrightarrow>
         fmlookup (fst (rewrite_pass lib sel (ds, st))) t
           = map_option remove_private_elem (fmlookup ds t))
   \<and> (\<forall>t e. t \<notin> set sel \<and> \<not> is_private t \<and> fmlookup ds t = Some e \<and> private_free_elem e \<longrightarrow>
         fmlookup (fst (rewrite_pass lib sel (ds, st))) t = Some e)
   \<and> (private_free ds \<longrightarrow> rewrite_pass lib [] (ds, st) = (ds, st))"
proof (intro conjI allI impI)
  fix t e' assume "fmlookup (fst (rewrite_pass lib sel (ds, st))) t = Some e'"
  from rewrite_pass_VR [OF this] show "\<exists>e. fmlookup ds t = Some e \<and> VR e' = VR e" by simp
next
  show "anonymize_tags lib sel (ds, st)
      = anonymize_tags lib (filter (\<lambda>t. fmlookup ds t \<noteq> None) sel) (ds, st)"
    by (rule anonymize_tags_filter [symmetric]) simp
next
  assume "\<forall>t \<in> set sel. fmlookup ds t = None"
  then show "anonymize_tags lib sel (ds, st) = (ds, st)"
    by (simp add: anonymize_tags_skip)
next
  fix t assume "t \<notin> set sel \<and> \<not> is_private t"
  then show "fmlookup (fst (rewrite_pass lib sel (ds, st))) t
      = map_option remove_private_elem (fmlookup ds t)"
    by (simp add: rewrite_pass_unselected)
next
  fix t e
  assume "t \<notin> set sel \<and> \<not> is_private t \<and> fmlookup ds t = Some e \<and> private_free_elem e"
  then show "fmlookup (fst (rewrite_pass lib sel (ds, st))) t = Some e"
    by (simp add: rewrite_pass_unselected remove_private_id(1))
next
  assume "private_free ds"
  then show "rewrite_pass lib [] (ds, st) = (ds, st)"
    by (simp add: rewrite_pass_Nil remove_private_tags_id)
qed

theorem rewrite_pass_frame_witness:
  "fmlookup (body ex_mismatch) (0x0010, 0x0010) = Some (DataElement ''PN'' (Str ''Jane Doe''))
   \<and> (0x0010, 0x0010) \<notin> set ([(0x0008, 0x0018), (0x0010, 0x0030)] :: tag list)
   \<and> \<not> is_private (0x0010, 0x0010)
   \<and> private_free (body ex_mismatch)
   \<and> fmlookup (fst (rewrite_pass ex_lib [(0x0008, 0x0018), (0x0010, 0x0030)]
        (body ex_mismatch, ex_state ex_mismatch))) (0x0010, 0x0010)
       = Some (DataElement ''PN'' (Str ''Jane Doe''))
   \<and> anonymize_tags ex_lib [(0x0008, 0x0018), (0x0010, 0x0030)]
        (body ex_mismatch, ex_state ex_mismatch)
       = anonymize_tags ex_lib [(0x0008, 0x0018)] (body ex_mismatch, ex_state ex_mismatch)
   \<and> rewrite_pass ex_lib [] (body ex_mismatch, ex_state ex_mismatch)
       = (body ex_mismatch, ex_state ex_mismatch)"
proof -
  let ?sel = "[(0x0008, 0x0018), (0x0010, 0x0030)] :: tag list"
  let ?s = "(body ex_mismatch, ex_state ex_mismatch)"
  have a: "fmlookup (body ex_mismatch) (0x0010, 0x0010) = Some (DataElement ''PN'' (Str ''Jane Doe''))"
    by (simp add: ex_mismatch_def)
  have b: "(0x0010, 0x0010) \<notin> set ?sel" by simp
  have c: "\<not> is_private (0x0010, 0x0010)" by (simp add: is_private_def)
  have d: "private_free (body ex_mismatch)"
    by (simp add: ex_mismatch_def private_free_fmupd private_free_fmempty is_private_def)
  have e: "private_free_elem (DataElement ''PN'' (Str ''Jane Doe''))" by simp
  have f: "filter (\<lambda>t. fmlookup (body ex_mismatch) t \<noteq> None) ?sel = [(0x0008, 0x0018)]"
    by (simp add: ex_mismatch_def)
  note frame = rewrite_pass_frame [of ex_lib ?sel "body ex_mismatch" "ex_state ex_mismatch"]
  from frame a b c e have g: "fmlookup (fst (rewrite_pass ex_lib ?sel ?s)) (0x0010, 0x0010)
      = Some (DataElement ''PN'' (Str ''Jane Doe''))"
    by blast
  from frame have "anonymize_tags ex_lib ?sel ?s
      = anonymize_tags ex_lib (filter (\<lambda>t. fmlookup (body ex_mismatch) t \<noteq> None) ?sel) ?s"
    by blast
  then have h: "anonymize_tags ex_lib ?sel ?s = anonymize_tags ex_lib [(0x0008, 0x0018)] ?s"
    unfolding f .
  from rewrite_pass_frame [of ex_lib "[]" "body ex_mismatch" "ex_state ex_mismatch"] d
  have i: "rewrite_pass ex_lib [] ?s = ?s" by blast
  from a b c d g h i show ?thesis by blast
qed



text \<open>
  C10.  Two runs of the rewrite (with the removal of the private elements) on the same
  dataset and selection, with whatever the generator returns in each and whatever state
  each starts from, agree at every tag, except that at a selected tag whose element had
  VR UI both hold an element of VR UI whose values may differ.  So the two outputs are
  equal when no selected tag that the dataset holds has VR UI.
\<close>

theorem rewrite_deterministic_up_to_UI:
  assumes "rejects_empty lib1 = rejects_empty lib2"
  shows "((\<forall>t \<in> set sel. \<forall>e. fmlookup ds t = Some e \<longrightarrow> VR e \<noteq> ''UI'') \<longrightarrow>
            fst (rewrite_pass lib1 sel (ds, st1)) = fst (rewrite_pass lib2 sel (ds, st2)))
       \<and> (\<forall>t. fmlookup (fst (rewrite_pass lib1 sel (ds, st1))) t
               = fmlookup (fst (rewrite_pass lib2 sel (ds, st2))) t
             \<or> (t \<in> set sel
                \<and> (\<exists>e v1 v2. fmlookup ds t = Some e \<and> VR e = ''UI''
                     \<and> fmlookup (fst (rewrite_pass lib1 sel (ds, st1))) t
                         = Some (DataElement ''UI'' v1)
                     \<and> fmlookup (fst (rewrite_pass lib2 sel (ds, st2))) t
                         = Some (DataElement ''UI'' v2))))"
proof -
  let ?o1 = "fst (rewrite_pass lib1 sel (ds, st1))"
  let ?o2 = "fst (rewrite_pass lib2 sel (ds, st2))"
  have at: "fmlookup ?o1 t = fmlookup ?o2 t
      \<or> (t \<in> set sel
         \<and> (\<exists>e v1 v2. fmlookup ds t = Some e \<and> VR e = ''UI''
              \<and> fmlookup ?o1 t = Some (DataElement ''UI'' v1)
              \<and> fmlookup ?o2 t = Some (DataElement ''UI'' v2)))" for t
  proof -
    have "fmlookup ?o1 t = fmlookup ?o2 t
        \<or> (t \<in> set sel \<and> (\<exists>v1 v2. fmlookup ?o1 t = Some (DataElement ''UI'' v1)
              \<and> fmlookup ?o2 t = Some (DataElement ''UI'' v2)))"
      by (rule agree_up_to_UI_D [OF rewrite_pass_agree [OF assms]])
    then show ?thesis
    proof
      assume "fmlookup ?o1 t = fmlookup ?o2 t"
      then show ?thesis by simp
    next
      assume "t \<in> set sel \<and> (\<exists>v1 v2. fmlookup ?o1 t = Some (DataElement ''UI'' v1)
          \<and> fmlookup ?o2 t = Some (DataElement ''UI'' v2))"
      then obtain v1 v2 where v: "t \<in> set sel" "fmlookup ?o1 t = Some (DataElement ''UI'' v1)"
          "fmlookup ?o2 t = Some (DataElement ''UI'' v2)"
        by blast
      from rewrite_pass_VR [OF v(2)] obtain e where "fmlookup ds t = Some e" "VR e = ''UI''"
        by auto
      with v show ?thesis by blast
    qed
  qed
  have "?o1 = ?o2" if "\<forall>t \<in> set sel. \<forall>e. fmlookup ds t = Some e \<longrightarrow> VR e \<noteq> ''UI''"
  proof (rule fmap_ext)
    fix t
    from at [of t] that show "fmlookup ?o1 t = fmlookup ?o2 t" by blast
  qed
  with at show ?thesis by blast
qed

theorem rewrite_deterministic_up_to_UI_witness:
  "rejects_empty ex_lib = rejects_empty ex_lib2
   \<and> fmlookup (body ex_file) (0x0010, 0x0010) = Some (DataElement ''PN'' (Str ''Jane Doe''))
   \<and> fmlookup (body ex_file) (0x0010, 0x0030) = Some (DataElement ''DA'' (Str ''19850604''))
   \<and> fst (rewrite_pass ex_lib [(0x0010, 0x0010), (0x0010, 0x0030)]
         (body ex_file, ex_state ex_file))
     = fst (rewrite_pass ex_lib2 [(0x0010, 0x0010), (0x0010, 0x0030)]
         (body ex_file, (ex_state ex_file)\<lparr>uid_count := 5\<rparr>))
   \<and> fmlookup (fst (rewrite_pass ex_lib [(0x0008, 0x0018)] (body ex_file, ex_state ex_file)))
         (0x0008, 0x0018)
     \<noteq> fmlookup (fst (rewrite_pass ex_lib2 [(0x0008, 0x0018)]
         (body ex_file, (ex_state ex_file)\<lparr>uid_count := 5\<rparr>))) (0x0008, 0x0018)"
proof -
  let ?sel = "[(0x0010, 0x0010), (0x0010, 0x0030)] :: tag list"
  have a: "rejects_empty ex_lib = rejects_empty ex_lib2"
    by (simp add: ex_lib_def ex_lib2_def)
  have b: "\<forall>t \<in> set ?sel. \<forall>e. fmlookup (body ex_file) t = Some e \<longrightarrow> VR e \<noteq> ''UI''"
    by (auto simp add: ex_file_def)
  have c: "fmlookup (fst (rewrite_pass ex_lib [(0x0008, 0x0018)] (body ex_file, ex_state ex_file)))
         (0x0008, 0x0018)
     \<noteq> fmlookup (fst (rewrite_pass ex_lib2 [(0x0008, 0x0018)]
         (body ex_file, (ex_state ex_file)\<lparr>uid_count := 5\<rparr>))) (0x0008, 0x0018)"
    by (simp add: eval_defs ex_lib2_def ex_file_def)
  from rewrite_deterministic_up_to_UI [OF a, of ?sel "body ex_file" "ex_state ex_file"
      "(ex_state ex_file)\<lparr>uid_count := 5\<rparr>"] a b c
  show ?thesis by (simp add: ex_file_def)
qed

end
